theory Spec2Isabelle
  imports Main "HOL-Library.Multiset"
begin

section \<open>Variables declared in blocks: \<open>Blockly.BoundVariableValue\<close>\<close>

text \<open>
  The embedding of \<^verbatim>\<open>core/bound_variable_value.js\<close>. JavaScript objects are
  identified by handles. A method of the class becomes a function of the handle of
  \<^verbatim>\<open>this\<close> and of the world the object lives in; the function returns the world
  after the call, or the exception thrown together with the world as the throw leaves it
  (a JavaScript exception does not undo the assignments made before it).
\<close>

type_synonym block_id = nat
type_synonym workspace_id = nat
type_synonym value_id = nat
type_synonym reference_id = nat

text \<open>
  The fields the constructor assigns (a trailing underscore of the source is dropped from a
  name, and \<open>id_\<close> is \<open>uid\<close>). \<open>'ty\<close> is the type expression
  (\<^verbatim>\<open>Blockly.TypeExpr\<close>); \<open>None\<close> is JavaScript's \<^verbatim>\<open>null\<close>.
\<close>

record 'ty BoundVariableValue =
  sourceBlock :: "block_id option"
  workspace :: "workspace_id option"
  typeExpr :: "'ty option"
  fieldName :: string
  scopeInputName :: string
  variableName :: string
  uid :: string
  referenceList :: "reference_id list"
  deleteLater :: bool

text \<open>
  Modelled from the spec: \<^verbatim>\<open>Blockly.BoundVariableValueReference\<close> is not part of
  these sources. The spec (section 3) gives a reference a display name and a nullable link
  to the binder it is currently bound to.
\<close>

record Reference =
  displayName :: string
  boundValue :: "value_id option"

text \<open>
  The calls the class makes on its collaborators, none of which is in these sources:
  \<^verbatim>\<open>Blockly.BoundVariables.removeValue(workspace, value)\<close>,
  \<^verbatim>\<open>reference.setVariableName(newName)\<close> and
  \<^verbatim>\<open>sourceBlock.getField(fieldName).updateText()\<close>. The world logs them in order.
\<close>

datatype call =
    RemoveValue "workspace_id option" value_id
  | ReferenceSetVariableName reference_id string
  | UpdateText block_id string

record 'ty world =
  heap :: "value_id \<Rightarrow> 'ty BoundVariableValue"
  references :: "reference_id \<Rightarrow> Reference"
  typedValue :: "block_id \<Rightarrow> string \<rightharpoonup> value_id"
  valueDB :: "workspace_id \<Rightarrow> value_id set"
  calls :: "call list"

text \<open>
  The three strings the class throws, and the \<^verbatim>\<open>TypeError\<close> of the language for a
  property read on \<^verbatim>\<open>null\<close>.
\<close>

datatype error =
    DuplicatedReferences
  | BeingDeleted
  | UnableToFindReference
  | TypeError

type_synonym 'ty outcome = "(error \<times> 'ty world) + 'ty world"

subsection \<open>Array primitives\<close>

text \<open>
  \<^verbatim>\<open>Array.prototype.indexOf\<close>: the first index holding the element (references are
  objects, compared by identity), or \<open>-1\<close>.
\<close>

fun indexOf :: "'a list \<Rightarrow> 'a \<Rightarrow> int" where
  "indexOf [] x = - 1"
| "indexOf (y # ys) x =
     (if y = x then 0
      else (let i = indexOf ys x in if i = - 1 then - 1 else i + 1))"

text \<open>\<^verbatim>\<open>list.splice(i, 1)\<close> for an index inside the list: the element at \<open>i\<close> is removed.\<close>

definition spliceOne :: "'a list \<Rightarrow> nat \<Rightarrow> 'a list" where
  "spliceOne xs i = take i xs @ drop (Suc i) xs"

subsection \<open>Collaborators\<close>

text \<open>
  Modelled from the spec: the Binding Directory (\<^verbatim>\<open>Blockly.BoundVariables\<close>) is not
  part of these sources. It registers binders per workspace; \<open>removeValue\<close> unregisters
  one. What it does for a \<^verbatim>\<open>null\<close> workspace is not known; the model leaves the
  registry as it is there.
\<close>

fun removeValue ::
  "workspace_id option \<Rightarrow> value_id \<Rightarrow> (workspace_id \<Rightarrow> value_id set) \<Rightarrow> (workspace_id \<Rightarrow> value_id set)"
where
  "removeValue None v db = db"
| "removeValue (Some ws) v db = db(ws := db ws - {v})"

text \<open>
  Modelled from the spec: the name setter of a reference (\<open>setName\<close> in section 4.3)
  stores the display name of the reference. The call is logged.
\<close>

definition reference_setVariableName :: "reference_id \<Rightarrow> string \<Rightarrow> 'ty world \<Rightarrow> 'ty world" where
  "reference_setVariableName r newName w =
     w\<lparr>references := (references w)(r := (references w r)\<lparr>displayName := newName\<rparr>),
       calls := calls w @ [ReferenceSetVariableName r newName]\<rparr>"

subsection \<open>The methods\<close>

text \<open>
  \<^verbatim>\<open>setVariableName\<close>. The loop
  \<^verbatim>\<open>for (var i = 0, reference; reference = this.referenceList[i]; i++)\<close> visits the
  list from the front; its elements are objects, hence truthy, so it stops at the end of the
  list. The setter of a reference does not change the list, so the loop is a recursion over
  the list as it is when the loop starts.
\<close>

fun setNames :: "string \<Rightarrow> reference_id list \<Rightarrow> 'ty world \<Rightarrow> 'ty world" where
  "setNames newName [] w = w"
| "setNames newName (reference # rest) w =
     setNames newName rest (reference_setVariableName reference newName w)"

definition setVariableName :: "value_id \<Rightarrow> string \<Rightarrow> 'ty world \<Rightarrow> 'ty outcome" where
  "setVariableName this newName w =
     (if variableName (heap w this) \<noteq> newName then
        (let w1 = w\<lparr>heap := (heap w)(this := (heap w this)\<lparr>variableName := newName\<rparr>)\<rparr>;
             w2 = setNames newName (referenceList (heap w1 this)) w1
         in case sourceBlock (heap w2 this) of
              None \<Rightarrow> Inl (TypeError, w2)
            | Some block \<Rightarrow>
                Inr (w2\<lparr>calls := calls w2 @ [UpdateText block (fieldName (heap w2 this))]\<rparr>))
      else Inr w)"

text \<open>
  \<^verbatim>\<open>dispose\<close>. With no reference left the binder is taken out of the directory and
  its fields are cleared one after the other; \<^verbatim>\<open>this.sourceBlock.typedValue\<close>
  throws when the source block is already \<^verbatim>\<open>null\<close>, after the first two statements
  have run.
\<close>

definition dispose :: "value_id \<Rightarrow> 'ty world \<Rightarrow> 'ty outcome" where
  "dispose this w =
     (let b = heap w this in
      if length (referenceList b) = 0 then
        (let w1 = w\<lparr>valueDB := removeValue (workspace b) this (valueDB w),
                     calls := calls w @ [RemoveValue (workspace b) this]\<rparr>;
             w2 = w1\<lparr>heap := (heap w1)(this := b\<lparr>workspace := None\<rparr>)\<rparr>
         in case sourceBlock b of
              None \<Rightarrow> Inl (TypeError, w2)
            | Some block \<Rightarrow>
                Inr (w2\<lparr>typedValue :=
                           (typedValue w2)(block := (typedValue w2 block)(fieldName b := None)),
                         heap :=
                           (heap w2)(this :=
                              b\<lparr>workspace := None, sourceBlock := None, typeExpr := None\<rparr>)\<rparr>))
      else Inr (w\<lparr>heap := (heap w)(this := b\<lparr>deleteLater := True\<rparr>)\<rparr>))"

text \<open>\<^verbatim>\<open>storeReference\<close>: the duplicate check comes first, then the deletion flag.\<close>

definition storeReference :: "value_id \<Rightarrow> reference_id \<Rightarrow> 'ty world \<Rightarrow> 'ty outcome" where
  "storeReference this reference w =
     (let b = heap w this in
      if indexOf (referenceList b) reference \<noteq> - 1 then Inl (DuplicatedReferences, w)
      else if deleteLater b then Inl (BeingDeleted, w)
      else Inr (w\<lparr>heap :=
                    (heap w)(this := b\<lparr>referenceList := referenceList b @ [reference]\<rparr>)\<rparr>))"

text \<open>\<^verbatim>\<open>removeReference\<close>: the splice, then the deferred disposal.\<close>

definition removeReference :: "value_id \<Rightarrow> reference_id \<Rightarrow> 'ty world \<Rightarrow> 'ty outcome" where
  "removeReference this reference w =
     (let b = heap w this;
          removalIndex = indexOf (referenceList b) reference
      in if removalIndex = - 1 then Inl (UnableToFindReference, w)
         else
           (let w1 = w\<lparr>heap :=
                         (heap w)(this :=
                            b\<lparr>referenceList := spliceOne (referenceList b) (nat removalIndex)\<rparr>)\<rparr>
            in if deleteLater (heap w1 this) \<and> length (referenceList (heap w1 this)) = 0
               then dispose this w1
               else Inr w1))"

subsection \<open>A caller that removes references one after the other\<close>

text \<open>
  The references of a binder leave it one at a time (each reference that is unbound calls
  \<^verbatim>\<open>removeReference\<close>); an exception ends the run.
\<close>

fun removeReferences :: "value_id \<Rightarrow> reference_id list \<Rightarrow> 'ty world \<Rightarrow> 'ty outcome" where
  "removeReferences this [] w = Inr w"
| "removeReferences this (reference # rest) w =
     (case removeReference this reference w of
        Inl thrown \<Rightarrow> Inl thrown
      | Inr w' \<Rightarrow> removeReferences this rest w')"

subsection \<open>A concrete world\<close>

text \<open>
  The variable \<open>i\<close> of a \<^verbatim>\<open>let\<close> block (block 1 of workspace 0), with a given
  reference list and deletion flag. Every handle of the heap holds this binder; the
  examples use handle 0.
\<close>

definition letValue :: "unit BoundVariableValue" where
  "letValue =
     \<lparr>sourceBlock = Some 1, workspace = Some 0, typeExpr = Some (), fieldName = ''VAR'',
      scopeInputName = ''EXP2'', variableName = ''i'', uid = ''value0'', referenceList = [],
      deleteLater = False\<rparr>"

definition exampleWorld :: "reference_id list \<Rightarrow> bool \<Rightarrow> unit world" where
  "exampleWorld rs later =
     \<lparr>heap = (\<lambda>_. letValue\<lparr>referenceList := rs, deleteLater := later\<rparr>),
      references = (\<lambda>_. \<lparr>displayName = ''i'', boundValue = None\<rparr>),
      typedValue = (\<lambda>_. [''VAR'' \<mapsto> 0]),
      valueDB = (\<lambda>_. {0}),
      calls = []\<rparr>"

section \<open>Type terms, unification and the joins of connections\<close>

text \<open>
  The type expressions (\<^verbatim>\<open>Blockly.TypeExpr\<close>), the connections and the type inference
  that runs when two connections are joined or separated are not part of these sources;
  only their tests are (\<^verbatim>\<open>tests/typed_blocks/type_unification_test.js\<close>). This
  section models them from the spec (sections 3, 4.1, 4.2 and 9). Where the spec and an
  assertion of a test disagree, the model follows the test, and says so.
\<close>

subsection \<open>Terms in an arena\<close>

text \<open>
  Modelled from the spec: the TypeTerm of section 3, as slots of an arena indexed by
  handles (section 9). \<^verbatim>\<open>Blockly.TypeExpr\<close> itself is missing from the sources. The
  arguments of a constructor are handles, so that two terms can share a variable. The
  variable id of \<open>Unbound\<close> and \<open>Bound\<close> is the handle of the slot. The constructors
  \<open>Int\<close>, \<open>Float\<close>, \<open>Bool\<close>, \<open>String\<close> and \<open>List\<close> of the spec carry a \<open>T\<close> here.
\<close>

type_synonym handle = nat

datatype TypeTerm =
    Unbound
  | Bound handle
  | TInt
  | TFloat
  | TBool
  | TString
  | Function handle handle
  | TList handle
  | Pair handle handle
  | Record "(string \<times> handle) list"
  | UserType string "handle list"
  | Pattern handle
  | Unknown
  | Error string

type_synonym arena = "handle \<Rightarrow> TypeTerm"

text \<open>
  The \<^verbatim>\<open>label\<close> the tests read off a type expression
  (\<^verbatim>\<open>Blockly.TypeExpr.INT_\<close>, \<^verbatim>\<open>TVAR_\<close>, ...): a variable is labelled
  \<^verbatim>\<open>TVAR_\<close> whether it is solved or not.
\<close>

datatype type_label =
    label_TVAR | label_INT | label_FLOAT | label_BOOL | label_STRING | label_FUN | label_LIST
  | label_PAIR | label_RECORD | label_USER | label_PATTERN | label_UNKNOWN | label_ERROR

fun label :: "TypeTerm \<Rightarrow> type_label" where
  "label Unbound = label_TVAR"
| "label (Bound t) = label_TVAR"
| "label TInt = label_INT"
| "label TFloat = label_FLOAT"
| "label TBool = label_BOOL"
| "label TString = label_STRING"
| "label (Function a r) = label_FUN"
| "label (TList e) = label_LIST"
| "label (Pair a b) = label_PAIR"
| "label (Record fs) = label_RECORD"
| "label (UserType name args) = label_USER"
| "label (Pattern inner) = label_PATTERN"
| "label Unknown = label_UNKNOWN"
| "label (Error reason) = label_ERROR"

text \<open>Modelled from the spec: the three type errors of section 7.\<close>

datatype type_error = Inconsistent | OccursCheck | ArityOrShapeMismatch

text \<open>
  Modelled from the spec: \<open>deref\<close> of section 4.1 follows the \<open>Bound\<close> links to the
  representative and rewrites the links it went through to point at the representative.
  The arena may hold a cycle of links, on which the walk does not end: the first argument
  bounds the number of links followed, and \<open>None\<close> says that the bound was reached.
\<close>

fun deref :: "nat \<Rightarrow> arena \<Rightarrow> handle \<Rightarrow> (handle \<times> arena) option" where
  "deref 0 ar h = None"
| "deref (Suc n) ar h =
     (case ar h of
        Bound t \<Rightarrow>
          (case deref n ar t of
             None \<Rightarrow> None
           | Some (r, ar') \<Rightarrow> Some (r, ar'(h := Bound r)))
      | _ \<Rightarrow> Some (h, ar))"

text \<open>The representative alone, for reading a type without changing the arena.\<close>

fun representative :: "nat \<Rightarrow> arena \<Rightarrow> handle \<Rightarrow> handle option" where
  "representative 0 ar h = None"
| "representative (Suc n) ar h =
     (case ar h of Bound t \<Rightarrow> representative n ar t | _ \<Rightarrow> Some h)"

text \<open>Modelled from the spec: the arguments of a constructor, and the occurs check of section 4.1.\<close>

fun children :: "TypeTerm \<Rightarrow> handle list" where
  "children (Bound t) = [t]"
| "children (Function a r) = [a, r]"
| "children (TList e) = [e]"
| "children (Pair a b) = [a, b]"
| "children (Record fs) = map snd fs"
| "children (UserType name args) = args"
| "children (Pattern inner) = [inner]"
| "children _ = []"

fun occurs :: "nat \<Rightarrow> arena \<Rightarrow> handle \<Rightarrow> handle \<Rightarrow> bool option"
  and occursAny :: "nat \<Rightarrow> arena \<Rightarrow> handle \<Rightarrow> handle list \<Rightarrow> bool option" where
  "occurs 0 ar v t = None"
| "occurs (Suc n) ar v t =
     (case representative (Suc n) ar t of
        None \<Rightarrow> None
      | Some r \<Rightarrow> if r = v then Some True else occursAny n ar v (children (ar r)))"
| "occursAny n ar v [] = Some False"
| "occursAny n ar v (c # cs) =
     (case occurs n ar v c of
        None \<Rightarrow> None
      | Some True \<Rightarrow> Some True
      | Some False \<Rightarrow> occursAny n ar v cs)"

text \<open>
  Modelled from the spec: what is left to unify when two concrete terms meet (section 4.1).
  Different constructors are \<open>Inconsistent\<close>; two records need the same set of field names,
  in any order, and are unified field by field; two user types need the same name
  (otherwise they are different constructors) and the same number of arguments.
\<close>

definition correspond :: "TypeTerm \<Rightarrow> TypeTerm \<Rightarrow> type_error + (handle \<times> handle) list" where
  "correspond s t =
     (if label s \<noteq> label t then Inl Inconsistent
      else case s of
        Record fs \<Rightarrow>
          (case t of
             Record fs' \<Rightarrow>
               if distinct (map fst fs) \<and> distinct (map fst fs')
                  \<and> set (map fst fs) = set (map fst fs')
               then Inr (map (\<lambda>(name, h). (h, the (map_of fs' name))) fs)
               else Inl ArityOrShapeMismatch
           | _ \<Rightarrow> Inl Inconsistent)
      | UserType name args \<Rightarrow>
          (case t of
             UserType name' args' \<Rightarrow>
               if name \<noteq> name' then Inl Inconsistent
               else if length args \<noteq> length args' then Inl ArityOrShapeMismatch
               else Inr (zip args args')
           | _ \<Rightarrow> Inl Inconsistent)
      | _ \<Rightarrow> Inr (zip (children s) (children t)))"

text \<open>
  Modelled from the spec: \<open>unify\<close> of section 4.1. The recursion on the arguments is
  written as a work list of pairs still to unify, the arguments of a pair coming before the
  pairs that were waiting. Both sides are dereferenced; equal representatives are done; an
  unbound one is bound to the other after the occurs check (the first of the pair if both
  are unbound); two concrete ones are compared by \<open>correspond\<close>. A failure returns the
  error and the arena with the bindings made so far, which are not rolled back. The first
  argument bounds the number of steps.
\<close>

fun unify :: "nat \<Rightarrow> arena \<Rightarrow> (handle \<times> handle) list \<Rightarrow> ((type_error \<times> arena) + arena) option" where
  "unify n ar [] = Some (Inr ar)"
| "unify 0 ar (p # ps) = None"
| "unify (Suc n) ar ((a, b) # ps) =
     (case deref (Suc n) ar a of
        None \<Rightarrow> None
      | Some (ra, ar1) \<Rightarrow>
          (case deref (Suc n) ar1 b of
             None \<Rightarrow> None
           | Some (rb, ar2) \<Rightarrow>
               if ra = rb then unify n ar2 ps
               else if ar2 ra = Unbound then
                 (case occurs (Suc n) ar2 ra rb of
                    None \<Rightarrow> None
                  | Some True \<Rightarrow> Some (Inl (OccursCheck, ar2))
                  | Some False \<Rightarrow> unify n (ar2(ra := Bound rb)) ps)
               else if ar2 rb = Unbound then
                 (case occurs (Suc n) ar2 rb ra of
                    None \<Rightarrow> None
                  | Some True \<Rightarrow> Some (Inl (OccursCheck, ar2))
                  | Some False \<Rightarrow> unify n (ar2(rb := Bound ra)) ps)
               else
                 (case correspond (ar2 ra) (ar2 rb) of
                    Inl e \<Rightarrow> Some (Inl (e, ar2))
                  | Inr qs \<Rightarrow> unify n ar2 (qs @ ps))))"

subsection \<open>Connections, references and the inference\<close>

text \<open>
  Modelled from the spec: the Connection of section 3 owns one TypeTerm
  (\<^verbatim>\<open>connection.typeExpr\<close> in the tests) and may hold a peer
  (\<^verbatim>\<open>targetConnection\<close>). A reference and a binder own a TypeTerm too, and a reference
  has its nullable link to a binder. \<open>declared\<close> keeps the slots as the blocks created
  them, \<open>arena\<close> the slots as they are now, and \<open>inForce\<close> the joins and bindings made
  and not undone, oldest first.
\<close>

type_synonym connection_id = nat

datatype constraint = Join connection_id connection_id | Bind reference_id value_id

record graph =
  declared :: arena
  arena :: arena
  typeExprOf :: "connection_id \<Rightarrow> handle"
  targetConnection :: "connection_id \<Rightarrow> connection_id option"
  referenceType :: "reference_id \<Rightarrow> handle"
  valueType :: "value_id \<Rightarrow> handle"
  boundTo :: "reference_id \<Rightarrow> value_id option"
  inForce :: "constraint list"

fun sides :: "graph \<Rightarrow> constraint \<Rightarrow> handle \<times> handle" where
  "sides g (Join a b) = (typeExprOf g a, typeExprOf g b)"
| "sides g (Bind r v) = (referenceType g r, valueType g v)"

text \<open>
  \<^verbatim>\<open>typeExpr.deref()\<close> as the tests read it: the slot found at the representative
  (its label is \<^verbatim>\<open>deref().label\<close>).
\<close>

definition derefLabel :: "nat \<Rightarrow> graph \<Rightarrow> handle \<Rightarrow> TypeTerm option" where
  "derefLabel n g h = map_option (arena g) (representative n (arena g) h)"

text \<open>
  Modelled from the spec: \<open>connect\<close> of section 4.2. Both connections are unattached
  (the state machine of section 4.2 attaches from unattached only). The unification runs on
  the arena as a value, which is the probe of the spec: when it fails, the type error is
  raised and the graph is the one before the attempt. When it succeeds its arena is kept
  and the peer link is recorded both ways.

  The spec also says that a successful connect "aliases the two term slots to the unified
  representative". The model does not overwrite \<^verbatim>\<open>connection.typeExpr\<close>: in
  \<^verbatim>\<open>test_type_unification_deeplyCloningTypes\<close>, after
  \<^verbatim>\<open>THEN.connect(float1.outputConnection)\<close> the slot of \<^verbatim>\<open>THEN\<close> still has
  the label \<^verbatim>\<open>TVAR_\<close> and its \<^verbatim>\<open>val\<close> is the term of \<^verbatim>\<open>float1\<close>. The
  aliasing is the \<open>Bound\<close> link that \<open>unify\<close> writes.
\<close>

datatype edit_error = Rejected type_error | AlreadyAttached | AlreadyBound

definition connect :: "nat \<Rightarrow> graph \<Rightarrow> connection_id \<Rightarrow> connection_id \<Rightarrow> ((edit_error \<times> graph) + graph) option" where
  "connect n g a b =
     (if targetConnection g a \<noteq> None \<or> targetConnection g b \<noteq> None then Some (Inl (AlreadyAttached, g))
      else case unify n (arena g) [sides g (Join a b)] of
             None \<Rightarrow> None
           | Some (Inl (e, ar)) \<Rightarrow> Some (Inl (Rejected e, g))
           | Some (Inr ar') \<Rightarrow>
               Some (Inr (g\<lparr>arena := ar',
                            targetConnection := (targetConnection g)(a := Some b, b := Some a),
                            inForce := inForce g @ [Join a b]\<rparr>)))"

text \<open>
  Modelled from the spec and the tests: \<open>disconnect\<close> of section 4.2 removes the peer
  link both ways. For the types, the spec describes a \<open>reset\<close> that gives the
  disconnecting slot a fresh unbound term and leaves a shared representative to the
  survivors. The tests assert something else
  (\<^verbatim>\<open>test_type_unification_clearTypeVariableWhenDisconnectingLetTypedBlocks\<close>: after
  \<^verbatim>\<open>EXP1\<close> is disconnected from the integer block, \<^verbatim>\<open>EXP2\<close> and the
  variable block joined to it are \<^verbatim>\<open>TVAR_\<close> again;
  \<^verbatim>\<open>test_type_unification_workbenchVariableContext\<close>: after the disconnect,
  \<^verbatim>\<open>deref()\<close> gives the very type variable it gave before the connect). The model
  follows the tests: the type variables are cleared, that is the arena starts again from the
  declared slots, and the joins and bindings still in force are unified again. An error of
  this second inference is passed on.
\<close>

definition reinfer :: "nat \<Rightarrow> graph \<Rightarrow> constraint list \<Rightarrow> ((type_error \<times> arena) + arena) option" where
  "reinfer n g cs = unify n (declared g) (map (sides g) cs)"

definition disconnect :: "nat \<Rightarrow> graph \<Rightarrow> connection_id \<Rightarrow> connection_id \<Rightarrow> (type_error + graph) option" where
  "disconnect n g a b =
     (if targetConnection g a = Some b \<and> targetConnection g b = Some a then
        (let cs = filter (\<lambda>c. c \<noteq> Join a b \<and> c \<noteq> Join b a) (inForce g) in
         case reinfer n g cs of
           None \<Rightarrow> None
         | Some (Inl (e, ar)) \<Rightarrow> Some (Inl e)
         | Some (Inr ar') \<Rightarrow>
             Some (Inr (g\<lparr>arena := ar',
                          targetConnection := (targetConnection g)(a := None, b := None),
                          inForce := cs\<rparr>)))
      else Some (Inr g))"

text \<open>
  Modelled from the tests: \<^verbatim>\<open>reference.setBoundValue(value)\<close> binds an unbound
  reference: the term of the reference is unified with the term of the binder
  (\<^verbatim>\<open>test_type_unification_workbenchVariableContext\<close>: right after the binding the two
  have the same \<^verbatim>\<open>deref()\<close>), and the binding stays in force until the reference is
  unbound.
\<close>

definition setBoundValue :: "nat \<Rightarrow> graph \<Rightarrow> reference_id \<Rightarrow> value_id \<Rightarrow> ((edit_error \<times> graph) + graph) option" where
  "setBoundValue n g r v =
     (if boundTo g r \<noteq> None then Some (Inl (AlreadyBound, g))
      else case unify n (arena g) [sides g (Bind r v)] of
             None \<Rightarrow> None
           | Some (Inl (e, ar)) \<Rightarrow> Some (Inl (Rejected e, g))
           | Some (Inr ar') \<Rightarrow>
               Some (Inr (g\<lparr>arena := ar', boundTo := (boundTo g)(r := Some v),
                            inForce := inForce g @ [Bind r v]\<rparr>)))"

subsection \<open>What unification establishes\<close>

text \<open>
  \<open>rep ar h r\<close>: the links of \<open>ar\<close> lead from \<open>h\<close> to the representative \<open>r\<close>.
  \<open>unified ar x y\<close>: \<open>x\<close> and \<open>y\<close> have the same representative, or concrete
  representatives of the same constructor whose arguments are unified in turn.
  \<open>refines ar ar'\<close>: \<open>ar'\<close> has all the sharing of \<open>ar\<close> and all its concrete slots.
\<close>

inductive rep :: "arena \<Rightarrow> handle \<Rightarrow> handle \<Rightarrow> bool" for ar :: arena where
  root: "label (ar h) \<noteq> label_TVAR \<or> ar h = Unbound \<Longrightarrow> rep ar h h"
| link: "ar h = Bound t \<Longrightarrow> rep ar t r \<Longrightarrow> rep ar h r"



subsection \<open>Running a scenario\<close>

text \<open>Joining the steps of a scenario, and reading its outcome.\<close>

fun andThen :: "('e + graph) option \<Rightarrow> (graph \<Rightarrow> ('e + graph) option) \<Rightarrow> ('e + graph) option" where
  "andThen (Some (Inr g)) f = f g"
| "andThen other f = other"

fun resultOr :: "graph \<Rightarrow> ('e + graph) option \<Rightarrow> graph" where
  "resultOr g0 (Some (Inr g)) = g"
| "resultOr g0 other = g0"


fun rejection :: "(('x \<times> 'y) + 'z) option \<Rightarrow> 'x option" where
  "rejection (Some (Inl (e, s))) = Some e"
| "rejection other = None"

subsection \<open>The graphs of the tests\<close>

text \<open>
  The blocks of the tests, with the type expressions the assertions of the tests show them
  to have. A graph without blocks first: connection \<open>c\<close> owns the slot \<open>c\<close>.
\<close>

definition blankGraph :: graph where
  "blankGraph = \<lparr>declared = (\<lambda>_. Unbound), arena = (\<lambda>_. Unbound), typeExprOf = (\<lambda>c. c),
      targetConnection = (\<lambda>_. None), referenceType = (\<lambda>_. 0), valueType = (\<lambda>_. 0),
      boundTo = (\<lambda>_. None), inForce = []\<rparr>"

definition withArena :: "arena \<Rightarrow> graph \<Rightarrow> graph" where
  "withArena ar g = g\<lparr>declared := ar, arena := ar\<rparr>"


text \<open>
  \<^verbatim>\<open>test_type_unification_clearTypeVariableWhenDisconnectingLetTypedBlocks\<close>. A
  \<^verbatim>\<open>let_typed\<close> block: \<^verbatim>\<open>EXP1\<close> (connection 0) has the variable 0,
  \<^verbatim>\<open>EXP2\<close> (connection 1) and the output (connection 2) share the variable 1, the
  binder has the slot 2, a variable that forwards to the one of \<^verbatim>\<open>EXP1\<close>
  (\<^verbatim>\<open>test_type_unification_workbenchVariableContext\<close> asserts that the type of the
  binder is not the type of \<^verbatim>\<open>EXP1\<close> and dereferences to it). The
  \<^verbatim>\<open>int_typed\<close> block has the output 3 with the integer slot 3; the
  \<^verbatim>\<open>variables_get_typed\<close> block has the output 4, whose slot 4 is the type of its
  reference. Joining \<^verbatim>\<open>EXP2\<close> with the variable block binds the reference to the
  variable of the \<^verbatim>\<open>let\<close> block, which is the third step here.
\<close>

definition letGraph :: graph where
  "letGraph = withArena ((\<lambda>_. Unbound)(2 := Bound 0, 3 := TInt))
     (blankGraph\<lparr>typeExprOf := (\<lambda>_. 0)(1 := 1, 2 := 1, 3 := 3, 4 := 4),
                 referenceType := (\<lambda>_. 4), valueType := (\<lambda>_. 2)\<rparr>)"

definition letJoined :: graph where
  "letJoined = resultOr letGraph
     (andThen (andThen (connect 10 letGraph 0 3) (\<lambda>g. connect 10 g 1 4)) (\<lambda>g. setBoundValue 10 g 0 0))"

text \<open>
  \<^verbatim>\<open>test_type_unification_clearTypeVariableWhenDisconnectingLambdaTypedBlocks\<close>. A
  \<^verbatim>\<open>lambda_app_typed\<close> block: \<^verbatim>\<open>FUN\<close> (connection 0) has the function term 2
  from variable 0 to variable 1, \<^verbatim>\<open>ARG\<close> (connection 1) has the variable 0, the
  output (connection 2) the variable 1. A \<^verbatim>\<open>lambda_typed\<close> block: its output
  (connection 3) has the function term 5 from variable 3 to variable 4, and
  \<^verbatim>\<open>RETURN\<close> (connection 4) has the variable 4. A \<^verbatim>\<open>logic_boolean_typed\<close>
  block: output (connection 5) with the boolean slot 6.
\<close>

definition lambdaAppGraph :: graph where
  "lambdaAppGraph = withArena ((\<lambda>_. Unbound)(2 := Function 0 1, 5 := Function 3 4, 6 := TBool))
     (blankGraph\<lparr>typeExprOf := (\<lambda>_. 0)(0 := 2, 1 := 0, 2 := 1, 3 := 5, 4 := 4, 5 := 6)\<rparr>)"

definition lambdaAppJoined :: graph where
  "lambdaAppJoined = resultOr lambdaAppGraph
     (andThen (connect 10 lambdaAppGraph 0 3) (\<lambda>g. connect 10 g 1 5))"

text \<open>
  \<^verbatim>\<open>test_type_unification_clearTypeVariableWhenDisconnectingListTypedBlocks\<close>. A
  \<^verbatim>\<open>lists_create_with_typed\<close> block: \<^verbatim>\<open>ADD0\<close> and \<^verbatim>\<open>ADD1\<close>
  (connections 0 and 1) share the element variable 0, the output (connection 2) has the
  list term 1. An \<^verbatim>\<open>int_typed\<close> output (connection 3, slot 2) and a
  \<^verbatim>\<open>float_typed\<close> output (connection 4, slot 3).
\<close>

definition listGraph :: graph where
  "listGraph = withArena ((\<lambda>_. Unbound)(1 := TList 0, 2 := TInt, 3 := TFloat))
     (blankGraph\<lparr>typeExprOf := (\<lambda>_. 0)(2 := 1, 3 := 2, 4 := 3)\<rparr>)"

definition listJoined :: graph where
  "listJoined = resultOr listGraph (connect 10 listGraph 0 3)"

text \<open>
  \<^verbatim>\<open>test_type_unification_disconnectReferenceBlock\<close>: the \<^verbatim>\<open>let\<close> block and
  the variable block as above, with a \<^verbatim>\<open>logic_boolean_typed\<close> output (connection 3,
  slot 3) joined to \<^verbatim>\<open>EXP1\<close>.
\<close>

definition refGraph :: graph where
  "refGraph = withArena ((\<lambda>_. Unbound)(2 := Bound 0, 3 := TBool))
     (blankGraph\<lparr>typeExprOf := (\<lambda>_. 0)(1 := 1, 2 := 1, 3 := 3, 4 := 4),
                 referenceType := (\<lambda>_. 4), valueType := (\<lambda>_. 2)\<rparr>)"

definition refJoined :: graph where
  "refJoined = resultOr refGraph
     (andThen (andThen (connect 10 refGraph 0 3) (\<lambda>g. connect 10 g 1 4)) (\<lambda>g. setBoundValue 10 g 0 0))"

text \<open>
  \<^verbatim>\<open>test_type_unification_workbenchVariableContext\<close>: the \<^verbatim>\<open>let\<close> block, the
  reference block that its workbench makes for its variable (output 4, slot 4, bound when it
  is made), and the input \<^verbatim>\<open>A\<close> of an \<^verbatim>\<open>int_arithmetic_typed\<close> block
  (connection 5, integer slot 5), joined to the reference block.
\<close>

definition workbenchGraph :: graph where
  "workbenchGraph = withArena ((\<lambda>_. Unbound)(2 := Bound 0, 5 := TInt))
     (blankGraph\<lparr>typeExprOf := (\<lambda>_. 0)(1 := 1, 2 := 1, 4 := 4, 5 := 5),
                 referenceType := (\<lambda>_. 4), valueType := (\<lambda>_. 2)\<rparr>)"

definition workbenchBound :: graph where
  "workbenchBound = resultOr workbenchGraph (setBoundValue 10 workbenchGraph 0 0)"

definition workbenchJoined :: graph where
  "workbenchJoined = resultOr workbenchBound (connect 10 workbenchBound 5 4)"

section \<open>Facts about the array primitives\<close>

lemma indexOf_ge: "indexOf xs x \<noteq> - 1 \<Longrightarrow> 0 \<le> indexOf xs x"
  by (induction xs) (auto simp: Let_def split: if_splits)

lemma indexOf_absent: "indexOf xs x = - 1 \<longleftrightarrow> x \<notin> set xs"
proof (induction xs)
  case Nil
  show ?case by simp
next
  case (Cons y ys)
  have "indexOf ys x \<noteq> - 1 \<Longrightarrow> indexOf ys x + 1 \<noteq> - 1"
    using indexOf_ge [of ys x] by arith
  with Cons show ?case by (auto simp: Let_def)
qed

lemma splice_indexOf: "x \<in> set xs \<Longrightarrow> spliceOne xs (nat (indexOf xs x)) = remove1 x xs"
proof (induction xs)
  case Nil
  then show ?case by simp
next
  case (Cons y ys)
  show ?case
  proof (cases "y = x")
    case True
    then show ?thesis by (simp add: spliceOne_def)
  next
    case False
    with Cons.prems have mem: "x \<in> set ys" by simp
    then have ne: "indexOf ys x \<noteq> - 1" by (simp add: indexOf_absent)
    then have ge: "0 \<le> indexOf ys x" by (rule indexOf_ge)
    then have "nat (indexOf ys x + 1) = Suc (nat (indexOf ys x))" by simp
    with False ne Cons.IH [OF mem] show ?thesis
      by (simp add: spliceOne_def Let_def)
  qed
qed

section \<open>The methods, case by case\<close>

lemma dispose_no_references:
  "referenceList (heap w this) = [] \<Longrightarrow> sourceBlock (heap w this) = Some block \<Longrightarrow>
   dispose this w =
     Inr (w\<lparr>valueDB := removeValue (workspace (heap w this)) this (valueDB w),
            calls := calls w @ [RemoveValue (workspace (heap w this)) this],
            typedValue := (typedValue w)(block := (typedValue w block)(fieldName (heap w this) := None)),
            heap := (heap w)(this := (heap w this)
                      \<lparr>workspace := None, sourceBlock := None, typeExpr := None\<rparr>)\<rparr>)"
  by (simp add: dispose_def Let_def)

lemma dispose_with_references:
  "referenceList (heap w this) \<noteq> [] \<Longrightarrow>
   dispose this w = Inr (w\<lparr>heap := (heap w)(this := (heap w this)\<lparr>deleteLater := True\<rparr>)\<rparr>)"
  by (simp add: dispose_def Let_def)

lemma removeReference_absent:
  "reference \<notin> set (referenceList (heap w this)) \<Longrightarrow>
   removeReference this reference w = Inl (UnableToFindReference, w)"
  by (simp add: removeReference_def Let_def indexOf_absent)

lemma removeReference_stays:
  "reference \<in> set (referenceList (heap w this)) \<Longrightarrow>
   \<not> (deleteLater (heap w this) \<and> remove1 reference (referenceList (heap w this)) = []) \<Longrightarrow>
   removeReference this reference w =
     Inr (w\<lparr>heap := (heap w)(this := (heap w this)
            \<lparr>referenceList := remove1 reference (referenceList (heap w this))\<rparr>)\<rparr>)"
  by (auto simp add: removeReference_def Let_def indexOf_absent splice_indexOf)

lemma removeReference_last:
  "reference \<in> set (referenceList (heap w this)) \<Longrightarrow>
   deleteLater (heap w this) \<Longrightarrow> remove1 reference (referenceList (heap w this)) = [] \<Longrightarrow>
   sourceBlock (heap w this) = Some block \<Longrightarrow>
   removeReference this reference w =
     Inr (w\<lparr>valueDB := removeValue (workspace (heap w this)) this (valueDB w),
            calls := calls w @ [RemoveValue (workspace (heap w this)) this],
            typedValue := (typedValue w)(block := (typedValue w block)(fieldName (heap w this) := None)),
            heap := (heap w)(this := (heap w this)
                      \<lparr>referenceList := [], workspace := None, sourceBlock := None,
                        typeExpr := None\<rparr>)\<rparr>)"
  by (simp add: removeReference_def Let_def indexOf_absent splice_indexOf dispose_def)

lemma mset_fold_remove1:
  "mset rs \<subseteq># mset xs \<Longrightarrow> mset (fold remove1 rs xs) = mset xs - mset rs"
proof (induction rs arbitrary: xs)
  case Nil
  show ?case by simp
next
  case (Cons r rs)
  from Cons.prems have r: "r \<in># mset xs"
    by (meson mset_subset_eqD list.set_intros(1) set_mset_mset union_single_eq_member in_multiset_in_set)
  from Cons.prems have "mset rs \<subseteq># mset (remove1 r xs)"
    by (simp add: insert_subset_eq_iff)
  from Cons.IH [OF this] show ?case by (simp add: diff_diff_add [symmetric] del: diff_diff_add)
qed

lemma mset_take_subseteq: "mset (take k rs) \<subseteq># mset rs"
  by (metis append_take_drop_id mset_append mset_subset_eq_add_left)

lemma removeReferences_pending:
  fixes w :: "'ty world"
  assumes "deleteLater (heap w this)"
    and "mset rs \<subseteq># mset (referenceList (heap w this))"
    and "length rs < length (referenceList (heap w this))"
  shows "removeReferences this rs w =
     Inr (w\<lparr>heap := (heap w)(this := (heap w this)
            \<lparr>referenceList := fold remove1 rs (referenceList (heap w this))\<rparr>)\<rparr>)"
  using assms
proof (induction rs arbitrary: w)
  case Nil
  show ?case by simp
next
  case (Cons r rs)
  let ?L = "referenceList (heap w this)"
  let ?w1 = "w\<lparr>heap := (heap w)(this := (heap w this)\<lparr>referenceList := remove1 r ?L\<rparr>)\<rparr>"
  from Cons.prems(2) have mem: "r \<in> set ?L"
    by (metis insert_subset_eq_iff mset.simps(2) set_mset_mset)
  from Cons.prems(3) mem have ne: "remove1 r ?L \<noteq> []"
    by (metis length_remove1 One_nat_def Suc_less_eq Suc_pred length_Cons length_greater_0_conv list.size(3) not_less_zero empty_iff empty_set)
  from mem ne have step: "removeReference this r w = Inr ?w1"
    by (simp add: removeReference_stays)
  have sub: "mset rs \<subseteq># mset (referenceList (heap ?w1 this))"
    using Cons.prems(2) by (simp add: insert_subset_eq_iff)
  have len: "length rs < length (referenceList (heap ?w1 this))"
    using Cons.prems(3) mem by (simp add: length_remove1)
  have dl: "deleteLater (heap ?w1 this)" using Cons.prems(1) by simp
  from Cons.IH [OF dl sub len] step show ?case by (simp add: fun_eq_iff)
qed

lemma removeReferences_append:
  "removeReferences this (xs @ ys) w =
     (case removeReferences this xs w of
        Inl thrown \<Rightarrow> Inl thrown
      | Inr w' \<Rightarrow> removeReferences this ys w')"
  by (induction xs arbitrary: w) (auto split: sum.splits)

lemma removeReferences_all:
  fixes w :: "'ty world"
  assumes dl: "deleteLater (heap w this)"
    and live: "sourceBlock (heap w this) = Some block"
    and all: "mset rs = mset (referenceList (heap w this))"
    and ne: "rs \<noteq> []"
  shows "removeReferences this rs w =
     Inr (w\<lparr>valueDB := removeValue (workspace (heap w this)) this (valueDB w),
            calls := calls w @ [RemoveValue (workspace (heap w this)) this],
            typedValue := (typedValue w)(block := (typedValue w block)(fieldName (heap w this) := None)),
            heap := (heap w)(this := (heap w this)
                      \<lparr>referenceList := [], workspace := None, sourceBlock := None,
                        typeExpr := None\<rparr>)\<rparr>)"
proof -
  let ?L = "referenceList (heap w this)"
  from ne obtain xs x where rs: "rs = xs @ [x]"
    by (metis rev_exhaust)
  let ?w1 = "w\<lparr>heap := (heap w)(this := (heap w this)\<lparr>referenceList := fold remove1 xs ?L\<rparr>)\<rparr>"
  have sub: "mset xs \<subseteq># mset ?L" using all rs by (metis mset_subset_eq_add_left mset_append)
  have len: "length xs < length ?L" using all rs by (metis length_append_singleton lessI size_mset)
  have pre: "removeReferences this xs w = Inr ?w1"
    using removeReferences_pending [OF dl sub len] .
  have "mset (fold remove1 xs ?L) = {#x#}"
    using mset_fold_remove1 [OF sub] all rs by (metis add_diff_cancel_left' mset.simps(1) mset.simps(2) mset_append)
  then have one: "fold remove1 xs ?L = [x]" by (metis mset_single_iff mset.simps(1) mset.simps(2))
  have last: "removeReference this x ?w1 =
     Inr (?w1\<lparr>valueDB := removeValue (workspace (heap ?w1 this)) this (valueDB ?w1),
            calls := calls ?w1 @ [RemoveValue (workspace (heap ?w1 this)) this],
            typedValue := (typedValue ?w1)(block := (typedValue ?w1 block)(fieldName (heap ?w1 this) := None)),
            heap := (heap ?w1)(this := (heap ?w1 this)
                      \<lparr>referenceList := [], workspace := None, sourceBlock := None,
                        typeExpr := None\<rparr>)\<rparr>)"
    by (rule removeReference_last) (use dl live one in simp_all)
  show ?thesis
    unfolding rs removeReferences_append pre
    by (simp add: last)
qed

lemma setNames_heap: "heap (setNames newName rs w) = heap w"
  by (induction rs arbitrary: w) (simp_all add: reference_setVariableName_def)

lemma setNames_eq:
  "setNames newName rs w =
     w\<lparr>references := (\<lambda>r. if r \<in> set rs then (references w r)\<lparr>displayName := newName\<rparr>
                            else references w r),
       calls := calls w @ map (\<lambda>r. ReferenceSetVariableName r newName) rs\<rparr>"
proof (induction rs arbitrary: w)
  case Nil
  show ?case by simp
next
  case (Cons r rs)
  show ?case
    by (simp add: Cons.IH reference_setVariableName_def fun_eq_iff)
qed

lemma setVariableName_same:
  "variableName (heap w this) = newName \<Longrightarrow> setVariableName this newName w = Inr w"
  by (simp add: setVariableName_def)

lemma setVariableName_new:
  "variableName (heap w this) \<noteq> newName \<Longrightarrow> sourceBlock (heap w this) = Some block \<Longrightarrow>
   setVariableName this newName w =
     Inr (w\<lparr>heap := (heap w)(this := (heap w this)\<lparr>variableName := newName\<rparr>),
            references := (\<lambda>r. if r \<in> set (referenceList (heap w this))
                                 then (references w r)\<lparr>displayName := newName\<rparr>
                                 else references w r),
            calls := calls w
              @ map (\<lambda>r. ReferenceSetVariableName r newName) (referenceList (heap w this))
              @ [UpdateText block (fieldName (heap w this))]\<rparr>)"
  by (simp add: setVariableName_def Let_def setNames_eq cong: if_cong)

section \<open>Deferred disposal\<close>

text \<open>
  C1. For a binder that has not been destroyed yet (its source block is set): \<^verbatim>\<open>dispose\<close>
  with an empty reference list destroys it at once: \<^verbatim>\<open>removeValue\<close> takes it out of the
  directory, and its workspace, the \<^verbatim>\<open>typedValue\<close> slot of its source block, the source
  block and the type expression are released. With a non-empty reference list
  \<^verbatim>\<open>dispose\<close> only sets the scheduled-for-deletion flag. From then on, whatever the
  order in which the references are removed, the binder is untouched (but for its list) as
  long as a reference is left, and the call of \<^verbatim>\<open>removeReference\<close> that empties the
  list destroys it: the log of the whole run holds exactly one \<^verbatim>\<open>removeValue\<close>.
  Afterwards the list stays empty for good, since every \<^verbatim>\<open>removeReference\<close> and every
  \<^verbatim>\<open>storeReference\<close> throws, so \<^verbatim>\<open>removeReference\<close> cannot destroy the binder a
  second time.
\<close>

theorem deferred_disposal:
  fixes w :: "'ty world" and this :: value_id
  defines "b \<equiv> heap w this"
  defines "scheduled \<equiv> w\<lparr>heap := (heap w)(this := b\<lparr>deleteLater := True\<rparr>)\<rparr>"
  assumes live: "sourceBlock b = Some block"
  shows
    "(referenceList b = [] \<longrightarrow>
        dispose this w =
          Inr (w\<lparr>valueDB := removeValue (workspace b) this (valueDB w),
                 calls := calls w @ [RemoveValue (workspace b) this],
                 typedValue := (typedValue w)(block := (typedValue w block)(fieldName b := None)),
                 heap := (heap w)(this := b\<lparr>workspace := None, sourceBlock := None,
                                              typeExpr := None\<rparr>)\<rparr>))
   \<and> (referenceList b \<noteq> [] \<longrightarrow>
        dispose this w = Inr scheduled
      \<and> (\<forall>rs. mset rs = mset (referenceList b) \<longrightarrow>
            (\<forall>k<length rs.
               removeReferences this (take k rs) scheduled =
                 Inr (w\<lparr>heap := (heap w)(this := b\<lparr>deleteLater := True,
                        referenceList := fold remove1 (take k rs) (referenceList b)\<rparr>)\<rparr>))
          \<and> (\<exists>final.
                removeReferences this rs scheduled = Inr final
              \<and> final =
                  w\<lparr>valueDB := removeValue (workspace b) this (valueDB w),
                    calls := calls w @ [RemoveValue (workspace b) this],
                    typedValue := (typedValue w)(block := (typedValue w block)(fieldName b := None)),
                    heap := (heap w)(this := b\<lparr>deleteLater := True, referenceList := [],
                               workspace := None, sourceBlock := None, typeExpr := None\<rparr>)\<rparr>
              \<and> (\<forall>r. removeReference this r final = Inl (UnableToFindReference, final)
                     \<and> storeReference this r final = Inl (BeingDeleted, final)))))"
proof (intro conjI impI allI)
  assume empty: "referenceList b = []"
  show "dispose this w =
          Inr (w\<lparr>valueDB := removeValue (workspace b) this (valueDB w),
                 calls := calls w @ [RemoveValue (workspace b) this],
                 typedValue := (typedValue w)(block := (typedValue w block)(fieldName b := None)),
                 heap := (heap w)(this := b\<lparr>workspace := None, sourceBlock := None,
                                              typeExpr := None\<rparr>)\<rparr>)"
    using empty live unfolding b_def by (rule dispose_no_references)
next
  assume "referenceList b \<noteq> []"
  then show "dispose this w = Inr scheduled"
    unfolding b_def scheduled_def by (rule dispose_with_references)
next
  fix rs k
  assume ne: "referenceList b \<noteq> []" and all: "mset rs = mset (referenceList b)"
    and k: "k < length rs"
  have dl: "deleteLater (heap scheduled this)" by (simp add: scheduled_def)
  have sub: "mset (take k rs) \<subseteq># mset (referenceList (heap scheduled this))"
    using all mset_take_subseteq [of k rs] by (simp add: scheduled_def b_def)
  have "length rs = length (referenceList b)" using all by (metis size_mset)
  with k have len: "length (take k rs) < length (referenceList (heap scheduled this))"
    by (simp add: scheduled_def b_def)
  show "removeReferences this (take k rs) scheduled =
          Inr (w\<lparr>heap := (heap w)(this := b\<lparr>deleteLater := True,
                 referenceList := fold remove1 (take k rs) (referenceList b)\<rparr>)\<rparr>)"
    unfolding removeReferences_pending [OF dl sub len]
    by (simp add: scheduled_def b_def)
next
  fix rs
  assume ne: "referenceList b \<noteq> []" and all: "mset rs = mset (referenceList b)"
  have dl: "deleteLater (heap scheduled this)" by (simp add: scheduled_def)
  have lv: "sourceBlock (heap scheduled this) = Some block"
    using live by (simp add: scheduled_def)
  have all': "mset rs = mset (referenceList (heap scheduled this))"
    using all by (simp add: scheduled_def b_def)
  from ne all have rs: "rs \<noteq> []" by auto
  let ?final = "w\<lparr>valueDB := removeValue (workspace b) this (valueDB w),
                    calls := calls w @ [RemoveValue (workspace b) this],
                    typedValue := (typedValue w)(block := (typedValue w block)(fieldName b := None)),
                    heap := (heap w)(this := b\<lparr>deleteLater := True, referenceList := [],
                               workspace := None, sourceBlock := None, typeExpr := None\<rparr>)\<rparr>"
  have run: "removeReferences this rs scheduled = Inr ?final"
    unfolding removeReferences_all [OF dl lv all' rs]
    by (simp add: scheduled_def b_def)
  have after: "removeReference this r ?final = Inl (UnableToFindReference, ?final)
             \<and> storeReference this r ?final = Inl (BeingDeleted, ?final)" for r
    by (simp add: removeReference_absent storeReference_def Let_def indexOf_absent)
  from run after
  show "\<exists>final.
          removeReferences this rs scheduled = Inr final
        \<and> final = ?final
        \<and> (\<forall>r. removeReference this r final = Inl (UnableToFindReference, final)
               \<and> storeReference this r final = Inl (BeingDeleted, final))"
    by blast
qed

theorem deferred_disposal_witness:
  "dispose 0 (exampleWorld [] False) =
     Inr ((exampleWorld [] False)
            \<lparr>valueDB := (\<lambda>_. {0})(0 := {}),
             calls := [RemoveValue (Some 0) 0],
             typedValue := (\<lambda>_. [''VAR'' \<mapsto> 0])(1 := Map.empty),
             heap := (heap (exampleWorld [] False))(0 := letValue
                       \<lparr>workspace := None, sourceBlock := None, typeExpr := None\<rparr>)\<rparr>)
   \<and> dispose 0 (exampleWorld [3, 4] False) =
       Inr ((exampleWorld [3, 4] False)
             \<lparr>heap := (heap (exampleWorld [3, 4] False))(0 := letValue
                       \<lparr>referenceList := [3, 4], deleteLater := True\<rparr>)\<rparr>)
   \<and> (\<exists>w'. removeReferences 0 [4] ((exampleWorld [3, 4] False)
             \<lparr>heap := (heap (exampleWorld [3, 4] False))(0 := letValue
                       \<lparr>referenceList := [3, 4], deleteLater := True\<rparr>)\<rparr>) = Inr w'
          \<and> sourceBlock (heap w' 0) = Some 1 \<and> calls w' = [])
   \<and> (\<exists>w'. removeReferences 0 [4, 3] ((exampleWorld [3, 4] False)
             \<lparr>heap := (heap (exampleWorld [3, 4] False))(0 := letValue
                       \<lparr>referenceList := [3, 4], deleteLater := True\<rparr>)\<rparr>) = Inr w'
          \<and> sourceBlock (heap w' 0) = None \<and> typeExpr (heap w' 0) = None
          \<and> calls w' = [RemoveValue (Some 0) 0]
          \<and> removeReference 0 3 w' = Inl (UnableToFindReference, w'))"
proof -
  have live0: "sourceBlock (heap (exampleWorld [] False) 0) = Some 1"
    and live2: "sourceBlock (heap (exampleWorld [3, 4] False) 0) = Some 1"
    by (simp_all add: exampleWorld_def letValue_def)
  have e0: "referenceList (heap (exampleWorld [] False) 0) = []"
    and e2: "referenceList (heap (exampleWorld [3, 4] False) 0) = [3, 4]"
    by (simp_all add: exampleWorld_def)
  have perm: "mset [4, 3] = mset (referenceList (heap (exampleWorld [3, 4] False) 0))"
    by (simp add: e2)
  note a = deferred_disposal [OF live0, THEN conjunct1, rule_format, OF e0]
  note b = deferred_disposal [OF live2, THEN conjunct2, rule_format]
  have ne: "referenceList (heap (exampleWorld [3, 4] False) 0) \<noteq> []" by (simp add: e2)
  note b1 = b [OF ne, THEN conjunct1]
  note b2 = b [OF ne, THEN conjunct2, rule_format, OF perm, THEN conjunct1, rule_format, of 1]
  note b3 = b [OF ne, THEN conjunct2, rule_format, OF perm, THEN conjunct2]
  from a have 1: "dispose 0 (exampleWorld [] False) =
     Inr ((exampleWorld [] False)
            \<lparr>valueDB := (\<lambda>_. {0})(0 := {}),
             calls := [RemoveValue (Some 0) 0],
             typedValue := (\<lambda>_. [''VAR'' \<mapsto> 0])(1 := Map.empty),
             heap := (heap (exampleWorld [] False))(0 := letValue
                       \<lparr>workspace := None, sourceBlock := None, typeExpr := None\<rparr>)\<rparr>)"
    by (simp add: exampleWorld_def letValue_def fun_eq_iff)
  from b1 have 2: "dispose 0 (exampleWorld [3, 4] False) =
       Inr ((exampleWorld [3, 4] False)
             \<lparr>heap := (heap (exampleWorld [3, 4] False))(0 := letValue
                       \<lparr>referenceList := [3, 4], deleteLater := True\<rparr>)\<rparr>)"
    by (simp add: exampleWorld_def)
  from b2 have 3: "\<exists>w'. removeReferences 0 [4] ((exampleWorld [3, 4] False)
             \<lparr>heap := (heap (exampleWorld [3, 4] False))(0 := letValue
                       \<lparr>referenceList := [3, 4], deleteLater := True\<rparr>)\<rparr>) = Inr w'
          \<and> sourceBlock (heap w' 0) = Some 1 \<and> calls w' = []"
    by (simp add: exampleWorld_def letValue_def)
  from b3 have 4: "\<exists>w'. removeReferences 0 [4, 3] ((exampleWorld [3, 4] False)
             \<lparr>heap := (heap (exampleWorld [3, 4] False))(0 := letValue
                       \<lparr>referenceList := [3, 4], deleteLater := True\<rparr>)\<rparr>) = Inr w'
          \<and> sourceBlock (heap w' 0) = None \<and> typeExpr (heap w' 0) = None
          \<and> calls w' = [RemoveValue (Some 0) 0]
          \<and> removeReference 0 3 w' = Inl (UnableToFindReference, w')"
    by (simp add: exampleWorld_def letValue_def)
  from 1 2 3 4 show ?thesis by blast
qed

section \<open>Registering a reference\<close>

text \<open>
  C2. \<^verbatim>\<open>storeReference\<close> throws \<^verbatim>\<open>'Duplicated references.'\<close> when the reference is
  already in the reference list of the binder, and throws the being-deleted error when the
  binder is scheduled for deletion (the duplicate check runs first, so a reference that is
  both already listed and offered to a binder being deleted gets the duplicate error); a
  binder scheduled for deletion never accepts a reference. Either throw leaves the world as
  it was. Otherwise the reference is appended to the list, and nothing else changes: no
  other field of the binder, no other binder, nothing else in the world.
\<close>

theorem storeReference_contract:
  fixes w :: "'ty world"
  shows "(reference \<in> set (referenceList (heap w this)) \<longrightarrow>
            storeReference this reference w = Inl (DuplicatedReferences, w))
       \<and> (reference \<notin> set (referenceList (heap w this)) \<and> deleteLater (heap w this) \<longrightarrow>
            storeReference this reference w = Inl (BeingDeleted, w))
       \<and> (deleteLater (heap w this) \<longrightarrow>
            (\<exists>e. storeReference this reference w = Inl (e, w)))
       \<and> (reference \<notin> set (referenceList (heap w this)) \<and> \<not> deleteLater (heap w this) \<longrightarrow>
            storeReference this reference w =
              Inr (w\<lparr>heap := (heap w)(this := (heap w this)
                      \<lparr>referenceList := referenceList (heap w this) @ [reference]\<rparr>)\<rparr>))"
  by (simp add: storeReference_def Let_def indexOf_absent)

theorem storeReference_contract_witness:
  "storeReference 0 3 (exampleWorld [3, 4] False) = Inl (DuplicatedReferences, exampleWorld [3, 4] False)
 \<and> storeReference 0 5 (exampleWorld [3, 4] True) = Inl (BeingDeleted, exampleWorld [3, 4] True)
 \<and> storeReference 0 3 (exampleWorld [3, 4] True) = Inl (DuplicatedReferences, exampleWorld [3, 4] True)
 \<and> storeReference 0 5 (exampleWorld [3, 4] False) =
      Inr ((exampleWorld [3, 4] False)
             \<lparr>heap := (heap (exampleWorld [3, 4] False))(0 := letValue
                        \<lparr>referenceList := [3, 4, 5], deleteLater := False\<rparr>)\<rparr>)"
proof -
  have l: "referenceList (heap (exampleWorld [3, 4] later) 0) = [3, 4]"
    and d: "deleteLater (heap (exampleWorld [3, 4] later) 0) = later" for later
    by (simp_all add: exampleWorld_def)
  have "(3::nat) \<in> set (referenceList (heap (exampleWorld [3, 4] False) 0))" by (simp add: l)
  with storeReference_contract [of 3 "exampleWorld [3, 4] False" 0]
  have 1: "storeReference 0 3 (exampleWorld [3, 4] False)
             = Inl (DuplicatedReferences, exampleWorld [3, 4] False)"
    by blast
  have "(5::nat) \<notin> set (referenceList (heap (exampleWorld [3, 4] True) 0))
          \<and> deleteLater (heap (exampleWorld [3, 4] True) 0)"
    by (simp add: l d)
  with storeReference_contract [of 5 "exampleWorld [3, 4] True" 0]
  have 2: "storeReference 0 5 (exampleWorld [3, 4] True) = Inl (BeingDeleted, exampleWorld [3, 4] True)"
    by blast
  have "(3::nat) \<in> set (referenceList (heap (exampleWorld [3, 4] True) 0))" by (simp add: l)
  with storeReference_contract [of 3 "exampleWorld [3, 4] True" 0]
  have 3: "storeReference 0 3 (exampleWorld [3, 4] True)
             = Inl (DuplicatedReferences, exampleWorld [3, 4] True)"
    by blast
  have "(5::nat) \<notin> set (referenceList (heap (exampleWorld [3, 4] False) 0))
          \<and> \<not> deleteLater (heap (exampleWorld [3, 4] False) 0)"
    by (simp add: l d)
  with storeReference_contract [of 5 "exampleWorld [3, 4] False" 0]
  have 4: "storeReference 0 5 (exampleWorld [3, 4] False) =
      Inr ((exampleWorld [3, 4] False)
             \<lparr>heap := (heap (exampleWorld [3, 4] False))(0 := letValue
                        \<lparr>referenceList := [3, 4, 5], deleteLater := False\<rparr>)\<rparr>)"
    by (simp add: exampleWorld_def letValue_def)
  from 1 2 3 4 show ?thesis by blast
qed

section \<open>Removing a reference\<close>

text \<open>
  C3. \<^verbatim>\<open>removeReference\<close> throws \<^verbatim>\<open>'Unable to find the reference.'\<close> when the
  reference is not in the reference list, and the world is then as before. Otherwise the
  (first occurrence of the) reference is removed. If the binder is scheduled for deletion and
  the list is now empty, the binder (not destroyed before) is disposed of in the same call:
  it leaves the directory, its type expression is released and the slot of its source block
  is cleared. In every other case only the list changes, so the binder stays live.
\<close>

theorem removeReference_contract:
  fixes w :: "'ty world" and this :: value_id
  defines "b \<equiv> heap w this"
  shows
    "(reference \<notin> set (referenceList b) \<longrightarrow>
        removeReference this reference w = Inl (UnableToFindReference, w))
   \<and> (reference \<in> set (referenceList b)
        \<and> \<not> (deleteLater b \<and> remove1 reference (referenceList b) = []) \<longrightarrow>
        removeReference this reference w =
          Inr (w\<lparr>heap := (heap w)(this := b
                 \<lparr>referenceList := remove1 reference (referenceList b)\<rparr>)\<rparr>))
   \<and> (reference \<in> set (referenceList b)
        \<and> deleteLater b \<and> remove1 reference (referenceList b) = []
        \<and> sourceBlock b = Some block \<longrightarrow>
        removeReference this reference w =
          Inr (w\<lparr>valueDB := removeValue (workspace b) this (valueDB w),
                 calls := calls w @ [RemoveValue (workspace b) this],
                 typedValue := (typedValue w)(block := (typedValue w block)(fieldName b := None)),
                 heap := (heap w)(this := b\<lparr>referenceList := [], workspace := None,
                            sourceBlock := None, typeExpr := None\<rparr>)\<rparr>))"
  unfolding b_def
  by (intro conjI impI)
     (simp_all add: removeReference_absent removeReference_stays removeReference_last)

theorem removeReference_contract_witness:
  "removeReference 0 5 (exampleWorld [3, 4] True) = Inl (UnableToFindReference, exampleWorld [3, 4] True)
 \<and> removeReference 0 3 (exampleWorld [3, 4] True) =
      Inr ((exampleWorld [3, 4] True)
             \<lparr>heap := (heap (exampleWorld [3, 4] True))(0 := letValue
                        \<lparr>referenceList := [4], deleteLater := True\<rparr>)\<rparr>)
 \<and> removeReference 0 4 (exampleWorld [4] False) =
      Inr ((exampleWorld [4] False)
             \<lparr>heap := (heap (exampleWorld [4] False))(0 := letValue
                        \<lparr>referenceList := [], deleteLater := False\<rparr>)\<rparr>)
 \<and> removeReference 0 4 (exampleWorld [4] True) =
      Inr ((exampleWorld [4] True)
             \<lparr>valueDB := (\<lambda>_. {0})(0 := {}),
              calls := [RemoveValue (Some 0) 0],
              typedValue := (\<lambda>_. [''VAR'' \<mapsto> 0])(1 := Map.empty),
              heap := (heap (exampleWorld [4] True))(0 := letValue
                        \<lparr>referenceList := [], deleteLater := True, workspace := None,
                          sourceBlock := None, typeExpr := None\<rparr>)\<rparr>)"
proof -
  note c = removeReference_contract [where block = 1]
  have "(5::nat) \<notin> set (referenceList (heap (exampleWorld [3, 4] True) 0))"
    by (simp add: exampleWorld_def)
  with c [of 5 "exampleWorld [3, 4] True" 0]
  have 1: "removeReference 0 5 (exampleWorld [3, 4] True)
             = Inl (UnableToFindReference, exampleWorld [3, 4] True)"
    by blast
  have "(3::nat) \<in> set (referenceList (heap (exampleWorld [3, 4] True) 0))
      \<and> \<not> (deleteLater (heap (exampleWorld [3, 4] True) 0)
            \<and> remove1 3 (referenceList (heap (exampleWorld [3, 4] True) 0)) = [])"
    by (simp add: exampleWorld_def)
  with c [of 3 "exampleWorld [3, 4] True" 0]
  have 2: "removeReference 0 3 (exampleWorld [3, 4] True) =
      Inr ((exampleWorld [3, 4] True)
             \<lparr>heap := (heap (exampleWorld [3, 4] True))(0 := letValue
                        \<lparr>referenceList := [4], deleteLater := True\<rparr>)\<rparr>)"
    by (simp add: exampleWorld_def letValue_def)
  have "(4::nat) \<in> set (referenceList (heap (exampleWorld [4] False) 0))
      \<and> \<not> (deleteLater (heap (exampleWorld [4] False) 0)
            \<and> remove1 4 (referenceList (heap (exampleWorld [4] False) 0)) = [])"
    by (simp add: exampleWorld_def)
  with c [of 4 "exampleWorld [4] False" 0]
  have 3: "removeReference 0 4 (exampleWorld [4] False) =
      Inr ((exampleWorld [4] False)
             \<lparr>heap := (heap (exampleWorld [4] False))(0 := letValue
                        \<lparr>referenceList := [], deleteLater := False\<rparr>)\<rparr>)"
    by (simp add: exampleWorld_def letValue_def)
  have "(4::nat) \<in> set (referenceList (heap (exampleWorld [4] True) 0))
      \<and> deleteLater (heap (exampleWorld [4] True) 0)
      \<and> remove1 4 (referenceList (heap (exampleWorld [4] True) 0)) = []
      \<and> sourceBlock (heap (exampleWorld [4] True) 0) = Some 1"
    by (simp add: exampleWorld_def letValue_def)
  with c [of 4 "exampleWorld [4] True" 0]
  have 4: "removeReference 0 4 (exampleWorld [4] True) =
      Inr ((exampleWorld [4] True)
             \<lparr>valueDB := (\<lambda>_. {0})(0 := {}),
              calls := [RemoveValue (Some 0) 0],
              typedValue := (\<lambda>_. [''VAR'' \<mapsto> 0])(1 := Map.empty),
              heap := (heap (exampleWorld [4] True))(0 := letValue
                        \<lparr>referenceList := [], deleteLater := True, workspace := None,
                          sourceBlock := None, typeExpr := None\<rparr>)\<rparr>)"
    by (simp add: exampleWorld_def letValue_def fun_eq_iff)
  from 1 2 3 4 show ?thesis by blast
qed

section \<open>Renaming a binder\<close>

text \<open>
  C4. \<^verbatim>\<open>setVariableName\<close> with the current name changes nothing: no reference is
  called and no refresh is asked for. With a different name (on a binder whose source block
  is set) the name of the binder is updated, the name setter is called on every reference
  of the reference list, in list order, and after these calls the field of the source block
  is asked to update its text. After a reference has been removed, the setter is called on
  the remaining references only.
\<close>

theorem setVariableName_propagation:
  fixes w :: "'ty world" and this :: value_id
  defines "b \<equiv> heap w this"
  shows
    "(variableName b = newName \<longrightarrow> setVariableName this newName w = Inr w)
   \<and> (variableName b \<noteq> newName \<and> sourceBlock b = Some block \<longrightarrow>
        setVariableName this newName w =
          Inr (w\<lparr>heap := (heap w)(this := b\<lparr>variableName := newName\<rparr>),
                 references := (\<lambda>r. if r \<in> set (referenceList b)
                                      then (references w r)\<lparr>displayName := newName\<rparr>
                                      else references w r),
                 calls := calls w
                   @ map (\<lambda>r. ReferenceSetVariableName r newName) (referenceList b)
                   @ [UpdateText block (fieldName b)]\<rparr>))
   \<and> (variableName b \<noteq> newName \<and> sourceBlock b = Some block
        \<and> reference \<in> set (referenceList b)
        \<and> \<not> (deleteLater b \<and> remove1 reference (referenceList b) = []) \<longrightarrow>
        (\<exists>w1. removeReference this reference w = Inr w1
            \<and> setVariableName this newName w1 =
                Inr (w1\<lparr>heap := (heap w1)(this := (heap w1 this)\<lparr>variableName := newName\<rparr>),
                        references := (\<lambda>r. if r \<in> set (remove1 reference (referenceList b))
                                             then (references w r)\<lparr>displayName := newName\<rparr>
                                             else references w r),
                        calls := calls w
                          @ map (\<lambda>r. ReferenceSetVariableName r newName)
                              (remove1 reference (referenceList b))
                          @ [UpdateText block (fieldName b)]\<rparr>)))"
proof (intro conjI impI)
  assume "variableName b = newName"
  then show "setVariableName this newName w = Inr w"
    unfolding b_def by (rule setVariableName_same)
next
  assume "variableName b \<noteq> newName \<and> sourceBlock b = Some block"
  then show "setVariableName this newName w =
          Inr (w\<lparr>heap := (heap w)(this := b\<lparr>variableName := newName\<rparr>),
                 references := (\<lambda>r. if r \<in> set (referenceList b)
                                      then (references w r)\<lparr>displayName := newName\<rparr>
                                      else references w r),
                 calls := calls w
                   @ map (\<lambda>r. ReferenceSetVariableName r newName) (referenceList b)
                   @ [UpdateText block (fieldName b)]\<rparr>)"
    unfolding b_def by (simp add: setVariableName_new)
next
  assume a: "variableName b \<noteq> newName \<and> sourceBlock b = Some block
        \<and> reference \<in> set (referenceList b)
        \<and> \<not> (deleteLater b \<and> remove1 reference (referenceList b) = [])"
  let ?w1 = "w\<lparr>heap := (heap w)(this := b
                 \<lparr>referenceList := remove1 reference (referenceList b)\<rparr>)\<rparr>"
  from a have rem: "removeReference this reference w = Inr ?w1"
    unfolding b_def by (simp add: removeReference_stays)
  from a have n: "variableName (heap ?w1 this) \<noteq> newName"
    and l: "sourceBlock (heap ?w1 this) = Some block"
    by simp_all
  have "setVariableName this newName ?w1 =
                Inr (?w1\<lparr>heap := (heap ?w1)(this := (heap ?w1 this)\<lparr>variableName := newName\<rparr>),
                        references := (\<lambda>r. if r \<in> set (remove1 reference (referenceList b))
                                             then (references w r)\<lparr>displayName := newName\<rparr>
                                             else references w r),
                        calls := calls w
                          @ map (\<lambda>r. ReferenceSetVariableName r newName)
                              (remove1 reference (referenceList b))
                          @ [UpdateText block (fieldName b)]\<rparr>)"
    unfolding setVariableName_new [OF n l] by (simp cong: if_cong)
  with rem show "\<exists>w1. removeReference this reference w = Inr w1
            \<and> setVariableName this newName w1 =
                Inr (w1\<lparr>heap := (heap w1)(this := (heap w1 this)\<lparr>variableName := newName\<rparr>),
                        references := (\<lambda>r. if r \<in> set (remove1 reference (referenceList b))
                                             then (references w r)\<lparr>displayName := newName\<rparr>
                                             else references w r),
                        calls := calls w
                          @ map (\<lambda>r. ReferenceSetVariableName r newName)
                              (remove1 reference (referenceList b))
                          @ [UpdateText block (fieldName b)]\<rparr>)"
    by blast
qed

theorem setVariableName_propagation_witness:
  "setVariableName 0 ''i'' (exampleWorld [3, 4, 5] False) = Inr (exampleWorld [3, 4, 5] False)
 \<and> (\<exists>w'. setVariableName 0 ''x'' (exampleWorld [3, 4, 5] False) = Inr w'
      \<and> variableName (heap w' 0) = ''x''
      \<and> calls w' = [ReferenceSetVariableName 3 ''x'', ReferenceSetVariableName 4 ''x'',
                     ReferenceSetVariableName 5 ''x'', UpdateText 1 ''VAR''])
 \<and> (\<exists>w1 w'. removeReference 0 4 (exampleWorld [3, 4, 5] False) = Inr w1
      \<and> setVariableName 0 ''x'' w1 = Inr w'
      \<and> variableName (heap w' 0) = ''x''
      \<and> calls w' = [ReferenceSetVariableName 3 ''x'', ReferenceSetVariableName 5 ''x'',
                     UpdateText 1 ''VAR''])"
proof -
  note c = setVariableName_propagation [where block = 1 and this = 0]
  have "variableName (heap (exampleWorld [3, 4, 5] False) 0) = ''i''"
    by (simp add: exampleWorld_def letValue_def)
  with c [of "exampleWorld [3, 4, 5] False" "''i''"]
  have 1: "setVariableName 0 ''i'' (exampleWorld [3, 4, 5] False) = Inr (exampleWorld [3, 4, 5] False)"
    by blast
  have h: "variableName (heap (exampleWorld [3, 4, 5] False) 0) \<noteq> ''x''
         \<and> sourceBlock (heap (exampleWorld [3, 4, 5] False) 0) = Some 1"
    by (simp add: exampleWorld_def letValue_def)
  with c [of "exampleWorld [3, 4, 5] False" "''x''"]
  have 2: "\<exists>w'. setVariableName 0 ''x'' (exampleWorld [3, 4, 5] False) = Inr w'
      \<and> variableName (heap w' 0) = ''x''
      \<and> calls w' = [ReferenceSetVariableName 3 ''x'', ReferenceSetVariableName 4 ''x'',
                     ReferenceSetVariableName 5 ''x'', UpdateText 1 ''VAR'']"
    by (simp add: exampleWorld_def letValue_def)
  have "variableName (heap (exampleWorld [3, 4, 5] False) 0) \<noteq> ''x''
         \<and> sourceBlock (heap (exampleWorld [3, 4, 5] False) 0) = Some 1
         \<and> (4::nat) \<in> set (referenceList (heap (exampleWorld [3, 4, 5] False) 0))
         \<and> \<not> (deleteLater (heap (exampleWorld [3, 4, 5] False) 0)
               \<and> remove1 4 (referenceList (heap (exampleWorld [3, 4, 5] False) 0)) = [])"
    by (simp add: exampleWorld_def letValue_def)
  with c [of "exampleWorld [3, 4, 5] False" "''x''" 4]
  have 3: "\<exists>w1 w'. removeReference 0 4 (exampleWorld [3, 4, 5] False) = Inr w1
      \<and> setVariableName 0 ''x'' w1 = Inr w'
      \<and> variableName (heap w' 0) = ''x''
      \<and> calls w' = [ReferenceSetVariableName 3 ''x'', ReferenceSetVariableName 5 ''x'',
                     UpdateText 1 ''VAR'']"
    by (auto simp add: exampleWorld_def letValue_def)
  from 1 2 3 show ?thesis by blast
qed

section \<open>Representatives and the soundness of unification\<close>






lemma representative_rep: "representative n ar h = Some r \<Longrightarrow> rep ar h r"
proof (induction n arbitrary: h)
  case 0
  then show ?case by simp
next
  case (Suc n)
  show ?case
  proof (cases "ar h")
    case (Bound t)
    with Suc.prems have "representative n ar t = Some r" by simp
    then have "rep ar t r" by (rule Suc.IH)
    with Bound show ?thesis by (rule rep.link)
  qed (use Suc.prems in \<open>auto intro: rep.root\<close>)
qed

lemma rep_representative: "rep ar h r \<Longrightarrow> \<exists>n. \<forall>m\<ge>n. representative m ar h = Some r"
proof (induction rule: rep.induct)
  case (root h)
  have "representative m ar h = Some h" if "1 \<le> m" for m
  proof -
    from that obtain k where "m = Suc k" by (cases m) auto
    with root show ?thesis by (cases "ar h") (auto)
  qed
  then show ?case by blast
next
  case (link h t r)
  then obtain n where n: "\<forall>m\<ge>n. representative m ar t = Some r" by blast
  have "representative m ar h = Some r" if "Suc n \<le> m" for m
  proof -
    from that obtain k where "m = Suc k" "n \<le> k" by (cases m) auto
    with n link.hyps(1) show ?thesis by simp
  qed
  then show ?case by blast
qed












section \<open>The edits, case by case\<close>


lemma connect_rejects:
  assumes "targetConnection g a = None" and "targetConnection g b = None"
    and "unify n (arena g) [(typeExprOf g a, typeExprOf g b)] = Some (Inl (te, ar))"
  shows "connect n g a b = Some (Inl (Rejected te, g))"
  using assms by (simp add: connect_def)

lemma connect_failure:
  assumes "connect n g a b = Some (Inl (e, g'))"
  shows "g' = g"
proof (cases "targetConnection g a \<noteq> None \<or> targetConnection g b \<noteq> None")
  case True
  with assms show ?thesis by (simp add: connect_def)
next
  case False
  show ?thesis
  proof (cases "unify n (arena g) [sides g (Join a b)]")
    case None
    with assms False show ?thesis by (simp add: connect_def)
  next
    case (Some res)
    show ?thesis
    proof (cases res)
      case (Inl failure)
      obtain te ar where "failure = (te, ar)" by (cases failure)
      with assms False Some Inl show ?thesis by (simp add: connect_def)
    next
      case (Inr ar')
      with assms False Some show ?thesis by (simp add: connect_def)
    qed
  qed
qed







lemma rejection_result: "rejection r = Some e \<Longrightarrow> \<exists>s. r = Some (Inl (e, s))"
  by (cases r rule: rejection.cases) simp_all

section \<open>The model against the assertions of the tests\<close>

text \<open>
  Each lemma replays a test on the model and states what the test asserts, in the order of
  its assertions: \<open>Some TInt\<close> is the label \<^verbatim>\<open>INT_\<close> of the dereferenced type,
  \<open>Some Unbound\<close> the label \<^verbatim>\<open>TVAR_\<close>.
\<close>

lemma test_clearTypeVariableWhenDisconnectingListTypedBlocks:
  "rejection (connect 10 listJoined 1 4) = Some (Rejected Inconsistent)
 \<and> derefLabel 10 listJoined 0 = Some TInt
 \<and> derefLabel 10 (resultOr listJoined (disconnect 10 listJoined 0 3)) 0 = Some Unbound"
  by code_simp

lemma test_clearTypeVariableWhenDisconnectingLetTypedBlocks:
  "map (derefLabel 10 letJoined) [0, 1, 4] = [Some TInt, Some TInt, Some TInt]
 \<and> map (derefLabel 10 (resultOr letJoined (disconnect 10 letJoined 0 3))) [0, 1, 4]
      = [Some Unbound, Some Unbound, Some Unbound]"
  by code_simp

lemma test_clearTypeVariableWhenDisconnectingLambdaAppTypedBlocks:
  "map (derefLabel 10 lambdaAppJoined) [3, 0, 0] = [Some TBool, Some TBool, Some TBool]
 \<and> map (derefLabel 10 (resultOr lambdaAppJoined (disconnect 10 lambdaAppJoined 1 5))) [3, 0, 0]
      = [Some Unbound, Some Unbound, Some Unbound]"
  by code_simp

lemma test_clearTypeVariableWhenDisconnectingLambdaTypedBlocks:
  "map (derefLabel 10 lambdaAppJoined) [3, 0, 0] = [Some TBool, Some TBool, Some TBool]
 \<and> map (derefLabel 10 (resultOr lambdaAppJoined (disconnect 10 lambdaAppJoined 0 3))) [3, 0, 0]
      = [Some Unbound, Some TBool, Some TBool]"
  by code_simp

lemma test_deeplyCloningTypes:
  "arena (resultOr listGraph (connect 10 listGraph 0 4)) (typeExprOf listGraph 0) = Bound 3
 \<and> typeExprOf (resultOr listGraph (connect 10 listGraph 0 4)) 4 = 3"
  by code_simp

lemma test_disconnectReferenceBlock:
  "derefLabel 10 refJoined (referenceType refJoined 0) = Some TBool
 \<and> boundTo refJoined 0 = Some 0
 \<and> derefLabel 10 (resultOr refJoined (disconnect 10 refJoined 1 4)) (referenceType refJoined 0)
      = Some TBool
 \<and> boundTo (resultOr refJoined (disconnect 10 refJoined 1 4)) 0 = Some 0"
  by code_simp

lemma test_workbenchVariableContext:
  "representative 10 (arena workbenchBound) (referenceType workbenchBound 0) = Some 0
 \<and> representative 10 (arena workbenchBound) (valueType workbenchBound 0) = Some 0
 \<and> valueType workbenchBound 0 \<noteq> 0
 \<and> map (derefLabel 10 workbenchJoined) [0, 2, 4] = [Some TInt, Some TInt, Some TInt]
 \<and> boundTo workbenchJoined 0 = Some 0
 \<and> representative 10 (arena (resultOr workbenchJoined (disconnect 10 workbenchJoined 5 4))) 4 = Some 0
 \<and> representative 10 (arena (resultOr workbenchJoined (disconnect 10 workbenchJoined 5 4))) 2 = Some 0
 \<and> arena (resultOr workbenchJoined (disconnect 10 workbenchJoined 5 4)) 0 = Unbound"
  by code_simp

section \<open>Joining two connections\<close>




section \<open>A connect that fails\<close>

text \<open>
  C8. Whenever \<open>connect\<close> raises an error, the graph it leaves is the graph before the
  attempt: no peer link is recorded, the arena and with it every term is as before, and
  nothing was added to the joins in force. And for two unattached connections whose terms do
  not unify, \<open>connect\<close> raises the type error of the unification.
\<close>

theorem connect_failure_atomic:
  "(connect n g a b = Some (Inl (e, g')) \<longrightarrow> g' = g)
 \<and> (targetConnection g a = None \<and> targetConnection g b = None
      \<and> unify n (arena g) [(typeExprOf g a, typeExprOf g b)] = Some (Inl (te, ar))
    \<longrightarrow> connect n g a b = Some (Inl (Rejected te, g)))"
proof (intro conjI impI)
  assume "connect n g a b = Some (Inl (e, g'))"
  then show "g' = g" by (rule connect_failure)
next
  assume h: "targetConnection g a = None \<and> targetConnection g b = None
      \<and> unify n (arena g) [(typeExprOf g a, typeExprOf g b)] = Some (Inl (te, ar))"
  from h have 1: "targetConnection g a = None" by (rule conjunct1)
  from h have 2: "targetConnection g b = None" by (rule conjunct2 [THEN conjunct1])
  from h have 3: "unify n (arena g) [(typeExprOf g a, typeExprOf g b)] = Some (Inl (te, ar))"
    by (rule conjunct2 [THEN conjunct2])
  from 1 2 3 show "connect n g a b = Some (Inl (Rejected te, g))" by (rule connect_rejects)
qed

theorem connect_failure_atomic_witness:
  "targetConnection listJoined 1 = None \<and> targetConnection listJoined 4 = None
 \<and> rejection (unify 10 (arena listJoined) [(typeExprOf listJoined 1, typeExprOf listJoined 4)])
      = Some Inconsistent
 \<and> connect 10 listJoined 1 4 = Some (Inl (Rejected Inconsistent, listJoined))"
proof -
  have t: "targetConnection listJoined 1 = None" "targetConnection listJoined 4 = None" by code_simp+
  have u: "rejection (unify 10 (arena listJoined) [(typeExprOf listJoined 1, typeExprOf listJoined 4)])
      = Some Inconsistent" by code_simp
  then obtain ar where "unify 10 (arena listJoined) [(typeExprOf listJoined 1, typeExprOf listJoined 4)]
      = Some (Inl (Inconsistent, ar))" by (blast dest: rejection_result)
  with t connect_failure_atomic [of 10 listJoined 1 4 "Rejected Inconsistent" listJoined Inconsistent ar]
  have "connect 10 listJoined 1 4 = Some (Inl (Rejected Inconsistent, listJoined))" by blast
  with t u show ?thesis by blast
qed

section \<open>Separating two connections\<close>




section \<open>Disconnecting the block of a bound reference\<close>




end
